theory Spec2Isabelle
  imports Complex_Main
begin

section \<open>Python values and built-ins used by app.py\<close>

text \<open>
  A spreadsheet cell as pandas hands it to the code: a missing value (\<open>NaN\<close> or
  \<open>None\<close>, everything \<open>pd.isna\<close> accepts), a Python \<open>int\<close>, a finite \<open>float\<close>
  (given by the number it denotes), a \<open>str\<close>, or any other non-null object (a
  timestamp, say), given by the text \<open>str()\<close> prints for it.  Characters are code
  points below 256.
\<close>

datatype cell = NA | IntV int | FloatV real | StrV string | OtherV string

datatype py_error = ValueError | TypeError | KeyError

text \<open>
  Two built-ins of the language are parameters of the model: \<open>str\<close> on a float
  (the shortest round-trip decimal) and \<open>float\<close> on a \<open>str\<close> (\<open>None\<close> where Python
  raises \<open>ValueError\<close>).
\<close>

record pyenv =
  float_repr :: "real \<Rightarrow> string"
  float_parse :: "string \<Rightarrow> real option"

definition TAB :: char where
  "TAB = CHR 0x09"

definition CRLF :: string where
  "CRLF = [CHR 0x0D, CHR 0x0A]"

text \<open>\<open>str.strip()\<close>: the characters Python regards as whitespace.\<close>

definition is_space :: "char \<Rightarrow> bool" where
  "is_space c = (c \<in> set [CHR 0x09, CHR 0x0A, CHR 0x0B, CHR 0x0C, CHR 0x0D,
     CHR 0x1C, CHR 0x1D, CHR 0x1E, CHR 0x1F, CHR 0x20, CHR 0x85, CHR 0xA0])"

definition strip :: "string \<Rightarrow> string" where
  "strip s = rev (dropWhile is_space (rev (dropWhile is_space s)))"

definition digit_chars :: string where
  "digit_chars = ''0123456789''"

definition ascii_digit :: "char \<Rightarrow> bool" where
  "ascii_digit c = (c \<in> set digit_chars)"

definition digit_val :: "char \<Rightarrow> nat" where
  "digit_val c = length (takeWhile (\<lambda>d. d \<noteq> c) digit_chars)"

text \<open>\<open>str.isdigit()\<close> also accepts the superscript digits, which \<open>int()\<close> rejects.\<close>

definition is_digit :: "char \<Rightarrow> bool" where
  "is_digit c = (ascii_digit c \<or> c \<in> set [CHR 0xB2, CHR 0xB3, CHR 0xB9])"

definition isdigit :: "string \<Rightarrow> bool" where
  "isdigit s = (s \<noteq> [] \<and> list_all is_digit s)"

definition digits_value :: "string \<Rightarrow> nat" where
  "digits_value s = foldl (\<lambda>a c. 10 * a + digit_val c) 0 s"

text \<open>\<open>int()\<close> on a slice of a string that passed \<open>isdigit\<close>; \<open>None\<close> is \<open>ValueError\<close>.\<close>

definition int_of_digits :: "string \<Rightarrow> nat option" where
  "int_of_digits s = (if s \<noteq> [] \<and> list_all ascii_digit s then Some (digits_value s) else None)"

definition slice :: "nat \<Rightarrow> nat \<Rightarrow> 'a list \<Rightarrow> 'a list" where
  "slice a b s = take (b - a) (drop a s)"

fun dec_nat :: "nat \<Rightarrow> string" where
  "dec_nat n = (if n < 10 then [digit_chars ! n] else dec_nat (n div 10) @ [digit_chars ! (n mod 10)])"

declare dec_nat.simps [simp del]

definition dec_int :: "int \<Rightarrow> string" where
  "dec_int i = (if i < 0 then CHR ''-'' # dec_nat (nat (- i)) else dec_nat (nat i))"

text \<open>\<open>int()\<close> on a float truncates towards zero.\<close>

definition trunc :: "real \<Rightarrow> int" where
  "trunc x = (if x < 0 then \<lceil>x\<rceil> else \<lfloor>x\<rfloor>)"

fun isna :: "cell \<Rightarrow> bool" where
  "isna NA = True"
| "isna _ = False"

text \<open>\<open>str()\<close> on a cell.  The code never applies it to a missing value.\<close>

fun py_str :: "pyenv \<Rightarrow> cell \<Rightarrow> string" where
  "py_str E NA = ''nan''"
| "py_str E (IntV i) = dec_int i"
| "py_str E (FloatV x) = float_repr E x"
| "py_str E (StrV s) = s"
| "py_str E (OtherV s) = s"

text \<open>\<open>float()\<close> on a cell that is not missing.\<close>

fun py_float :: "pyenv \<Rightarrow> cell \<Rightarrow> py_error + real" where
  "py_float E (IntV i) = Inr (of_int i)"
| "py_float E (FloatV x) = Inr x"
| "py_float E (StrV s) = (case float_parse E s of None \<Rightarrow> Inl ValueError | Some x \<Rightarrow> Inr x)"
| "py_float E (OtherV s) = Inl TypeError"
| "py_float E NA = Inl TypeError"

text \<open>
  An instance of the two built-ins for evaluating concrete inputs: a float prints as
  its decimal expansion (what Python prints for floats such as \<open>5.5\<close> or \<open>5.0\<close>),
  and a string converts when it is an optionally signed plain decimal.
\<close>

fun frac_digits :: "nat \<Rightarrow> real \<Rightarrow> string" where
  "frac_digits 0 r = []"
| "frac_digits (Suc k) r =
     (if r = 0 then []
      else (digit_chars ! nat \<lfloor>r * 10\<rfloor>) # frac_digits k (r * 10 - of_int \<lfloor>r * 10\<rfloor>))"

definition plain_repr :: "real \<Rightarrow> string" where
  "plain_repr x =
     (let a = \<bar>x\<bar>; f = a - of_int \<lfloor>a\<rfloor> in
      (if x < 0 then ''-'' else '''') @ dec_nat (nat \<lfloor>a\<rfloor>) @ ''.'' @
      (if f = 0 then ''0'' else frac_digits 17 f))"

definition plain_parse :: "string \<Rightarrow> real option" where
  "plain_parse s =
     (let t = strip s;
          neg = (t \<noteq> [] \<and> hd t = CHR ''-'');
          u = (if t \<noteq> [] \<and> (hd t = CHR ''-'' \<or> hd t = CHR ''+'') then tl t else t);
          ip = takeWhile ascii_digit u;
          rest = dropWhile ascii_digit u;
          fp = (case rest of [] \<Rightarrow> Some []
                | c # f \<Rightarrow> if c = CHR ''.'' \<and> list_all ascii_digit f then Some f else None)
      in case fp of
           None \<Rightarrow> None
         | Some f \<Rightarrow>
             if ip = [] \<and> f = [] then None
             else Some ((if neg then - 1 else 1) *
                        (real (digits_value ip) + real (digits_value f) / 10 ^ length f)))"

definition plain :: pyenv where
  "plain = \<lparr>float_repr = plain_repr, float_parse = plain_parse\<rparr>"

section \<open>Tables and rows\<close>

text \<open>
  A \<open>DataFrame\<close>: its column labels and its rows of cells.  \<open>iterrows\<close> yields each
  row with its index label (0, 1, ... for a sheet read from a workbook) as a
  series, a lookup from column label to cell.
\<close>

record table =
  columns :: "string list"
  rows :: "cell list list"

type_synonym series = "string \<rightharpoonup> cell"

definition iterrows :: "table \<Rightarrow> (nat \<times> series) list" where
  "iterrows df = enumerate 0 (map (\<lambda>r. map_of (zip (columns df) r)) (rows df))"

definition df_empty :: "table \<Rightarrow> bool" where
  "df_empty df = (rows df = [] \<or> columns df = [])"

text \<open>\<open>row.get(key)\<close> gives \<open>None\<close> for a label the row lacks; \<open>row.get(key, d)\<close> gives \<open>d\<close>.\<close>

definition get :: "series \<Rightarrow> string \<Rightarrow> cell" where
  "get row k = (case row k of None \<Rightarrow> NA | Some v \<Rightarrow> v)"

definition get_default :: "series \<Rightarrow> string \<Rightarrow> cell \<Rightarrow> cell" where
  "get_default row k d = (case row k of None \<Rightarrow> d | Some v \<Rightarrow> v)"

text \<open>The test \<open>pd.isna(v) or str(v).strip() == ''\<close> that the code repeats.\<close>

definition blank :: "pyenv \<Rightarrow> cell \<Rightarrow> bool" where
  "blank E v = (isna v \<or> strip (py_str E v) = [])"

section \<open>Validation\<close>

definition validate_date_format :: "pyenv \<Rightarrow> cell \<Rightarrow> bool" where
  "validate_date_format E date_val =
     (if isna date_val then False
      else
        let date_str = (case date_val of FloatV x \<Rightarrow> dec_int (trunc x) | _ \<Rightarrow> py_str E date_val) in
        if length date_str \<noteq> 8 then False
        else if \<not> isdigit date_str then False
        else (case (int_of_digits (slice 0 4 date_str),
                    int_of_digits (slice 4 6 date_str),
                    int_of_digits (slice 6 8 date_str)) of
                (Some y, Some m, Some d) \<Rightarrow>
                  if y < 1900 \<or> y > 2100 \<or> m < 1 \<or> m > 12 \<or> d < 1 \<or> d > 31 then False
                  else True
              | _ \<Rightarrow> False))"

text \<open>Every row message starts with the spreadsheet row, \<open>idx + 2\<close>.\<close>

definition quoted :: "string \<Rightarrow> string" where
  "quoted s = CHR 0x27 # s @ [CHR 0x27]"

definition row_msg :: "nat \<Rightarrow> string \<Rightarrow> string" where
  "row_msg row_num body = ''Row '' @ dec_nat row_num @ '': '' @ body"

definition no_orders_msg :: string where
  "no_orders_msg = ''No orders found in 'Sales Order Entry' sheet''"

definition no_lines_msg :: string where
  "no_lines_msg = ''No line items found in 'Line Items Entry' sheet''"

text \<open>What one pass of the loop of \<open>validate_orders\<close> appends for a row that is not skipped.\<close>

definition order_row_errors :: "pyenv \<Rightarrow> nat \<Rightarrow> series \<Rightarrow> string set \<Rightarrow> string list" where
  "order_row_errors E row_num row seen_doc_nums =
     (let doc_num = strip (py_str E (get row ''Order #'')) in
      (if doc_num \<in> seen_doc_nums
       then [row_msg row_num (''Duplicate Order # '' @ quoted doc_num)] else []) @
      (if blank E (get row ''Document Date'')
       then [row_msg row_num ''Document Date is required'']
       else if \<not> validate_date_format E (get row ''Document Date'')
       then [row_msg row_num ''Document Date must be YYYYMMDD format''] else []) @
      (if blank E (get row ''Due Date'')
       then [row_msg row_num ''Due Date is required'']
       else if \<not> validate_date_format E (get row ''Due Date'')
       then [row_msg row_num ''Due Date must be YYYYMMDD format''] else []) @
      (if blank E (get row ''Customer Code'')
       then [row_msg row_num ''Customer Code is required''] else []) @
      (if blank E (get row ''Sales Code'')
       then [row_msg row_num ''Sales Code is required''] else []))"

fun orders_loop :: "pyenv \<Rightarrow> (nat \<times> series) list \<Rightarrow> string set \<Rightarrow> string list \<Rightarrow> string list" where
  "orders_loop E [] seen_doc_nums errors = errors"
| "orders_loop E ((idx, row) # rest) seen_doc_nums errors =
     (if blank E (get row ''Order #'') then orders_loop E rest seen_doc_nums errors
      else orders_loop E rest
             (insert (strip (py_str E (get row ''Order #''))) seen_doc_nums)
             (errors @ order_row_errors E (idx + 2) row seen_doc_nums))"

definition validate_orders :: "pyenv \<Rightarrow> table \<Rightarrow> string list" where
  "validate_orders E df_orders =
     (if df_empty df_orders then [no_orders_msg]
      else orders_loop E (iterrows df_orders) {} [])"

text \<open>
  \<open>validate_lines\<close> converts the quantity with \<open>float()\<close> outside any \<open>try\<close>: where the
  conversion raises, the function raises and the errors collected so far are lost.
\<close>

definition quantity_errors :: "pyenv \<Rightarrow> nat \<Rightarrow> series \<Rightarrow> py_error + string list" where
  "quantity_errors E row_num row =
     (if isna (get row ''Quantity'') then Inr [row_msg row_num ''Quantity is required'']
      else case py_float E (get_default row ''Quantity'' (IntV 0)) of
             Inl e \<Rightarrow> Inl e
           | Inr q \<Rightarrow> Inr (if q \<le> 0 then [row_msg row_num ''Quantity must be positive''] else []))"

definition line_row_errors :: "pyenv \<Rightarrow> nat \<Rightarrow> series \<Rightarrow> string set \<Rightarrow> py_error + string list" where
  "line_row_errors E row_num row valid_order_nums =
     (let parent_key = strip (py_str E (get row ''Parent Order #'')) in
      case quantity_errors E row_num row of
        Inl e \<Rightarrow> Inl e
      | Inr qty \<Rightarrow> Inr (
          (if parent_key \<notin> valid_order_nums
           then [row_msg row_num (''Parent Order # '' @ quoted parent_key @ '' not found in Order Headers'')]
           else []) @
          (if isna (get row ''Line #'') then [row_msg row_num ''Line # is required''] else []) @
          (if blank E (get row ''Item Code'') then [row_msg row_num ''Item Code is required''] else []) @
          qty @
          (if blank E (get row ''Warehouse'') then [row_msg row_num ''Warehouse is required''] else []) @
          (if blank E (get row ''Sales Code'') then [row_msg row_num ''Sales Code is required''] else []) @
          (if blank E (get row ''Account Code'') then [row_msg row_num ''Account Code is required''] else []) @
          (if blank E (get row ''VAT Group'') then [row_msg row_num ''VAT Group is required''] else [])))"

fun lines_loop :: "pyenv \<Rightarrow> (nat \<times> series) list \<Rightarrow> string set \<Rightarrow> string list \<Rightarrow> py_error + string list" where
  "lines_loop E [] valid_order_nums errors = Inr errors"
| "lines_loop E ((idx, row) # rest) valid_order_nums errors =
     (if blank E (get row ''Parent Order #'') then lines_loop E rest valid_order_nums errors
      else case line_row_errors E (idx + 2) row valid_order_nums of
             Inl e \<Rightarrow> Inl e
           | Inr es \<Rightarrow> lines_loop E rest valid_order_nums (errors @ es))"

definition validate_lines :: "pyenv \<Rightarrow> table \<Rightarrow> string set \<Rightarrow> py_error + string list" where
  "validate_lines E df_lines valid_order_nums =
     (if df_empty df_lines then Inr [no_lines_msg]
      else lines_loop E (iterrows df_lines) valid_order_nums [])"

section \<open>The field schema\<close>

definition ORDR_TOTAL_COLS :: nat where
  "ORDR_TOTAL_COLS = 271"

definition RDR1_TOTAL_COLS :: nat where
  "RDR1_TOTAL_COLS = 244"

definition ORDR_FIELDS :: "string \<rightharpoonup> nat" where
  "ORDR_FIELDS = map_of [
     (''DocNum'', 0), (''DocType'', 2), (''DocDate'', 5), (''DocDueDate'', 6),
     (''CardCode'', 7), (''SalesPersonCode'', 21), (''U_AllowDOInv_Dep'', 198),
     (''U_GSTSGDRate'', 202)]"

definition RDR1_FIELDS :: "string \<rightharpoonup> nat" where
  "RDR1_FIELDS = map_of [
     (''ParentKey'', 0), (''LineNum'', 1), (''ItemCode'', 2), (''Quantity'', 4),
     (''Price'', 6), (''WarehouseCode'', 13), (''SalesPersonCode'', 14),
     (''AccountCode'', 17), (''CostingCode'', 20), (''VatGroup'', 23),
     (''COGSCostingCode'', 81), (''CostingCode2'', 87), (''CostingCode3'', 88),
     (''CostingCode4'', 89), (''CostingCode5'', 90), (''COGSCostingCode2'', 97),
     (''COGSCostingCode3'', 98), (''COGSCostingCode4'', 99), (''COGSCostingCode5'', 100),
     (''U_PermitNum'', 171), (''U_GSTSGDRate'', 183)]"

text \<open>\<open>FIELDS[name]\<close>; every name the code looks up is a key of the table.\<close>

definition pos :: "(string \<rightharpoonup> nat) \<Rightarrow> string \<Rightarrow> nat" where
  "pos tbl name = (case tbl name of Some i \<Rightarrow> i | None \<Rightarrow> 0)"

definition ORDR_HEADER_ROW1 :: "string list" where
  "ORDR_HEADER_ROW1 = [
    ''DocNum'', ''DocEntry'', ''DocType'', ''HandWritten'', ''Printed'', ''DocDate'',
    ''DocDueDate'', ''CardCode'', ''CardName'', ''Address'', ''NumAtCard'', ''DocTotal'',
    ''AttachmentEntry'', ''DocCurrency'', ''DocRate'', ''Reference1'', ''Reference2'', ''Comments'',
    ''JournalMemo'', ''PaymentGroupCode'', ''DocTime'', ''SalesPersonCode'', ''TransportationCode'', ''Confirmed'',
    ''ImportFileNum'', ''SummeryType'', ''ContactPersonCode'', ''ShowSCN'', ''Series'', ''TaxDate'',
    ''PartialSupply'', ''DocObjectCode'', ''ShipToCode'', ''Indicator'', ''FederalTaxID'', ''DiscountPercent'',
    ''PaymentReference'', ''DocTotalFc'', ''Form1099'', ''Box1099'', ''RevisionPo'', ''RequriedDate'',
    ''CancelDate'', ''BlockDunning'', ''Pick'', ''PaymentMethod'', ''PaymentBlock'', ''PaymentBlockEntry'',
    ''CentralBankIndicator'', ''MaximumCashDiscount'', ''Project'', ''ExemptionValidityDateFrom'', ''ExemptionValidityDateTo'', ''WareHouseUpdateType'',
    ''Rounding'', ''ExternalCorrectedDocNum'', ''InternalCorrectedDocNum'', ''DeferredTax'', ''TaxExemptionLetterNum'', ''AgentCode'',
    ''NumberOfInstallments'', ''ApplyTaxOnFirstInstallment'', ''VatDate'', ''DocumentsOwner'', ''FolioPrefixString'', ''FolioNumber'',
    ''DocumentSubType'', ''BPChannelCode'', ''BPChannelContact'', ''Address2'', ''PayToCode'', ''ManualNumber'',
    ''UseShpdGoodsAct'', ''IsPayToBank'', ''PayToBankCountry'', ''PayToBankCode'', ''PayToBankAccountNo'', ''PayToBankBranch'',
    ''BPL_IDAssignedToInvoice'', ''DownPayment'', ''ReserveInvoice'', ''LanguageCode'', ''TrackingNumber'', ''PickRemark'',
    ''ClosingDate'', ''SequenceCode'', ''SequenceSerial'', ''SeriesString'', ''SubSeriesString'', ''SequenceModel'',
    ''UseCorrectionVATGroup'', ''DownPaymentAmount'', ''DownPaymentPercentage'', ''DownPaymentType'', ''DownPaymentAmountSC'', ''DownPaymentAmountFC'',
    ''VatPercent'', ''ServiceGrossProfitPercent'', ''OpeningRemarks'', ''ClosingRemarks'', ''RoundingDiffAmount'', ''ControlAccount'',
    ''InsuranceOperation347'', ''ArchiveNonremovableSalesQuotation'', ''GTSChecker'', ''GTSPayee'', ''ExtraMonth'', ''ExtraDays'',
    ''CashDiscountDateOffset'', ''StartFrom'', ''NTSApproved'', ''ETaxWebSite'', ''ETaxNumber'', ''NTSApprovedNumber'',
    ''EDocGenerationType'', ''EDocSeries'', ''EDocNum'', ''EDocExportFormat'', ''EDocStatus'', ''EDocErrorCode'',
    ''EDocErrorMessage'', ''DownPaymentStatus'', ''GroupSeries'', ''GroupNumber'', ''GroupHandWritten'', ''ReopenOriginalDocument'',
    ''ReopenManuallyClosedOrCanceledDocument'', ''CreateOnlineQuotation'', ''POSEquipmentNumber'', ''POSManufacturerSerialNumber'', ''POSCashierNumber'', ''ApplyCurrentVATRatesForDownPaymentsToDraw'',
    ''ClosingOption'', ''SpecifiedClosingDate'', ''OpenForLandedCosts'', ''RelevantToGTS'', ''AnnualInvoiceDeclarationReference'', ''Supplier'',
    ''Releaser'', ''Receiver'', ''BlanketAgreementNumber'', ''IsAlteration'', ''AssetValueDate'', ''DocumentDelivery'',
    ''AuthorizationCode'', ''StartDeliveryDate'', ''StartDeliveryTime'', ''EndDeliveryDate'', ''EndDeliveryTime'', ''VehiclePlate'',
    ''ATDocumentType'', ''ElecCommStatus'', ''ReuseDocumentNum'', ''ReuseNotaFiscalNum'', ''PrintSEPADirect'', ''FiscalDocNum'',
    ''POSDailySummaryNo'', ''POSReceiptNo'', ''PointOfIssueCode'', ''Letter'', ''FolioNumberFrom'', ''FolioNumberTo'',
    ''InterimType'', ''RelatedType'', ''RelatedEntry'', ''SAPPassport'', ''DocumentTaxID'', ''DateOfReportingControlStatementVAT'',
    ''ReportingSectionControlStatementVAT'', ''ExcludeFromTaxReportControlStatementVAT'', ''POS_CashRegister'', ''CreateQRCodeFrom'', ''PriceMode'', ''CommissionTrade'',
    ''CommissionTradeReturn'', ''UseBillToAddrToDetermineTax'', ''Cig'', ''Cup'', ''FatherCard'', ''FatherType'',
    ''ShipState'', ''ShipPlace'', ''CustOffice'', ''FCI'', ''AddLegIn'', ''LegTextF'',
    ''IndFinal'', ''U_LoanExpDate'', ''U_Transfer_Type'', ''U_IGN_RsvDue'', ''U_IGN_RsvSONum'', ''U_PCH_ApprvPay'',
    ''U_RDR_FinancingAppr'', ''U_Star_Acct'', ''U_AllowDOInv_Dep'', ''U_CustPO_Received'', ''U_RCN_Num'', ''U_POR_InventoryValue'',
    ''U_Appr_LowSlsPrice'', ''U_Appr_PO_Stock'', ''U_Appr_PO_NStock1'', ''U_Appr_PO_NStock2'', ''U_GSTSGDRate'', ''U_GSTSGDAmt'',
    ''U_Vessel'', ''U_LineBusiness'', ''U_RDR_IgnoreSpcTerms'', ''U_Dep_Required'', ''U_Dep_Received'', ''U_LoanAddr'',
    ''U_TRF_SlpName'', ''U_INM_Purpose'', ''U_ELTO_RevSchCrt'', ''U_ELTO_RevSchVal'', ''U_ELTO_RevCrtdDat'', ''U_ELTO_BillSchCrt'',
    ''U_ELTO_BillSchVal'', ''U_ELTO_BillCrtDat'', ''U_ELTO_LseTrf'', ''U_ELTO_LseTransNo'', ''U_Appr_DiffSQ'', ''U_FIN_TotalBefDisc'',
    ''U_FIN_LessDisc'', ''U_FIN_AddGST'', ''U_FIN_LessDeposit'', ''U_FIN_LessDepGST'', ''U_RefreshInfo'', ''U_PL_Remarks'',
    ''U_RDR_SellPrcSample'', ''U_Appr_Sample'', ''U_FIN_GSTDueFmFinc'', ''U_IntRemarks'', ''U_ImportConsign'', ''U_EndUserCode'',
    ''U_EndUserName'', ''U_TRF_AccList'', ''U_ELTO_RSVCode'', ''U_ELTO_ContactDetail'', ''U_ELTO_RsvComment'', ''U_FileName'',
    ''U_RDocNum'', ''U_Warehouse_Code'', ''U_Warehouse'', ''U_P_Approval_Code'', ''U_Customer_State'', ''U_Cust_Territory'',
    ''U_Team_Code'', ''U_Detailman_Code'', ''U_ContractNo'', ''U_ApplNeoComm'', ''U_SampleInv'', ''U_ETA'',
    ''U_RecEntry'', ''U_WMS_BasePick'', ''U_AutoPick'', ''U_URGENT'', ''U_WMS_RefNo'', ''U_WMS_FromHandheld'',
    ''U_WMS_DeviceID'', ''U_WMS_ScnUsr'', ''U_DeliveryCompt'', ''U_DeliveryDate'', ''U_CAPPSUpdate'', ''U_CAPPSUpdDat'',
    ''U_CAPPSNum'', ''U_OrigFile'', ''U_OrigName'', ''U_ServFile'', ''U_ServName'', ''U_CAPPSStsUpd'',
    ''U_CAPPSStsDat'']"

definition ORDR_HEADER_ROW2 :: "string list" where
  "ORDR_HEADER_ROW2 = [
    ''DocNum'', ''DocEntry'', ''DocType'', ''Handwrtten'', ''Printed'', ''DocDate'',
    ''DocDueDate'', ''CardCode'', ''CardName'', ''Address'', ''NumAtCard'', ''DocTotal'',
    ''AtcEntry'', ''DocCur'', ''DocRate'', ''Ref1'', ''Ref2'', ''Comments'',
    ''JrnlMemo'', ''GroupNum'', ''DocTime'', ''SlpCode'', ''TrnspCode'', ''Confirmed'',
    ''ImportEnt'', ''SummryType'', ''CntctCode'', ''ShowSCN'', ''Series'', ''TaxDate'',
    ''PartSupply'', ''ObjType'', ''ShipToCode'', ''Indicator'', ''LicTradNum'', ''DiscPrcnt'',
    ''PaymentRef'', ''UserSign'', ''DocTotalFC'', ''Form1099'', ''Box1099'', ''RevisionPo'',
    ''ReqDate'', ''CancelDate'', ''BlockDunn'', ''Pick'', ''PeyMethod'', ''PayBlock'',
    ''PayBlckRef'', ''CntrlBnk'', ''MaxDscn'', ''Project'', ''FromDate'', ''ToDate'',
    ''UpdInvnt'', ''Rounding'', ''CorrExt'', ''CorrInv'', ''DeferrTax'', ''LetterNum'',
    ''AgentCode'', ''Installmnt'', ''VATFirst'', ''VatDate'', ''OwnerCode'', ''FolioPref'',
    ''FolioNum'', ''DocSubType'', ''BPChCode'', ''BPChCntc'', ''Address2'', ''PayToCode'',
    ''ManualNum'', ''UseShpdGd'', ''IsPaytoBnk'', ''BnkCntry'', ''BankCode'', ''BnkAccount'',
    ''BnkBranch'', ''BPLId'', ''DpmPrcnt'', ''isIns'', ''LangCode'', ''TrackNo'',
    ''PickRmrk'', ''ClsDate'', ''SeqCode'', ''Serial'', ''SeriesStr'', ''SubStr'',
    ''Model'', ''UseCorrVat'', ''DpmAmnt'', ''DpmPrcnt'', ''Posted'', ''DpmAmntSC'',
    ''DpmAmntFC'', ''VatPercent'', ''SrvGpPrcnt'', ''Header'', ''Footer'', ''RoundDif'',
    ''CtlAccount'', ''InsurOp347'', ''IgnRelDoc'', ''Checker'', ''Payee'', ''ExtraMonth'',
    ''ExtraDays'', ''CdcOffset'', ''PayDuMonth'', ''NTSApprov'', ''NTSWebSite'', ''NTSeTaxNo'',
    ''NTSApprNo'', ''EDocGenTyp'', ''ESeries'', ''EDocNum'', ''EDocExpFrm'', ''EDocStatus'',
    ''EDocErrCod'', ''EDocErrMsg'', ''DpmStatus'', ''PQTGrpSer'', ''PQTGrpNum'', ''PQTGrpHW'',
    ''ReopOriDoc'', ''ReopManCls'', ''OnlineQuo'', ''POSEqNum'', ''POSManufSN'', ''POSCashN'',
    ''DpmAsDscnt'', ''ClosingOpt'', ''SpecDate'', ''OpenForLaC'', ''GTSRlvnt'', ''AnnInvDecR'',
    ''Supplier'', ''Releaser'', ''Receiver'', ''AgrNo'', ''IsAlt'', ''AssetDate'',
    ''DocDlvry'', ''AuthCode'', ''StDlvDate'', ''StDlvTime'', ''EndDlvDate'', ''EndDlvTime'',
    ''VclPlate'', ''AtDocType'', ''ElCoStatus'', ''IsReuseNum'', ''IsReuseNFN'', ''PrintSEPA'',
    ''FiscDocNum'', ''ZrdAbs'', ''POSRcptNo'', ''PTICode'', ''Letter'', ''FolNumFrom'',
    ''FolNumTo'', ''InterimTyp'', ''RelatedTyp'', ''RelatedEnt'', ''SAPPassprt'', ''DocTaxID'',
    ''DateReport'', ''RepSection'', ''ExclTaxRep'', ''PosCashReg'', ''QRCodeSrc'', ''PriceMode'',
    ''ShipToCode'', ''ComTrade'', ''ComTradeRt'', ''UseBilAddr'', ''CIG'', ''CUP'',
    ''FatherCard'', ''FatherType'', ''ShipState'', ''ShipPlace'', ''CustOffice'', ''FCI'',
    ''AddLegIn'', ''LegTextF'', ''DANFELgTxt'', ''IndFinal'', ''DataVers'', ''U_LoanExpDate'',
    ''U_Transfer_Type'', ''U_IGN_RsvDue'', ''U_IGN_RsvSONum'', ''U_PCH_ApprvPay'', ''U_RDR_FinancingAppr'', ''U_Star_Acct'',
    ''U_AllowDOInv_Dep'', ''U_CustPO_Received'', ''U_RCN_Num'', ''U_POR_InventoryValue'', ''U_Appr_LowSlsPrice'', ''U_Appr_PO_Stock'',
    ''U_Appr_PO_NStock1'', ''U_Appr_PO_NStock2'', ''U_GSTSGDRate'', ''U_GSTSGDAmt'', ''U_Vessel'', ''U_LineBusiness'',
    ''U_RDR_IgnoreSpcTerms'', ''U_Dep_Required'', ''U_Dep_Received'', ''U_LoanAddr'', ''U_TRF_SlpName'', ''U_INM_Purpose'',
    ''U_ELTO_RevSchCrt'', ''U_ELTO_RevSchVal'', ''U_ELTO_RevCrtdDat'', ''U_ELTO_BillSchCrt'', ''U_ELTO_BillSchVal'', ''U_ELTO_BillCrtDat'',
    ''U_ELTO_LseTrf'', ''U_ELTO_LseTransNo'', ''U_Appr_DiffSQ'', ''U_FIN_TotalBefDisc'', ''U_FIN_LessDisc'', ''U_FIN_AddGST'',
    ''U_FIN_LessDeposit'', ''U_FIN_LessDepGST'', ''U_RefreshInfo'', ''U_PL_Remarks'', ''U_RDR_SellPrcSample'', ''U_Appr_Sample'',
    ''U_FIN_GSTDueFmFinc'', ''U_IntRemarks'', ''U_ImportConsign'', ''U_EndUserCode'', ''U_EndUserName'', ''U_TRF_AccList'',
    ''U_ELTO_RSVCode'', ''U_ELTO_ContactDetail'', ''U_ELTO_RsvComment'', ''U_FileName'', ''U_RDocNum'', ''U_Warehouse_Code'',
    ''U_Warehouse'', ''U_P_Approval_Code'', ''U_Customer_State'', ''U_Cust_Territory'', ''U_Team_Code'', ''U_Detailman_Code'',
    ''U_ContractNo'', ''U_ApplNeoComm'', ''U_SampleInv'', ''U_ETA'', ''U_RecEntry'', ''U_WMS_BasePick'',
    ''U_AutoPick'', ''U_URGENT'', ''U_WMS_RefNo'', ''U_WMS_FromHandheld'', ''U_WMS_DeviceID'', ''U_WMS_ScnUsr'',
    ''U_DeliveryCompt'', ''U_DeliveryDate'', ''U_CAPPSUpdate'', ''U_CAPPSUpdDat'', ''U_CAPPSNum'', ''U_OrigFile'',
    ''U_OrigName'']"

definition RDR1_HEADER_ROW1 :: "string list" where
  "RDR1_HEADER_ROW1 = [
    ''ParentKey'', ''LineNum'', ''ItemCode'', ''ItemDescription'', ''Quantity'', ''ShipDate'',
    ''Price'', ''PriceAfterVAT'', ''Currency'', ''Rate'', ''DiscountPercent'', ''VendorNum'',
    ''SerialNum'', ''WarehouseCode'', ''SalesPersonCode'', ''CommisionPercent'', ''TreeType'', ''AccountCode'',
    ''UseBaseUnits'', ''SupplierCatNum'', ''CostingCode'', ''ProjectCode'', ''BarCode'', ''VatGroup'',
    ''Height1'', ''Hight1Unit'', ''Height2'', ''Height2Unit'', ''Lengh1'', ''Lengh1Unit'',
    ''Lengh2'', ''Lengh2Unit'', ''Weight1'', ''Weight1Unit'', ''Weight2'', ''Weight2Unit'',
    ''Factor1'', ''Factor2'', ''Factor3'', ''Factor4'', ''BaseType'', ''BaseEntry'',
    ''BaseLine'', ''Volume'', ''VolumeUnit'', ''Width1'', ''Width1Unit'', ''Width2'',
    ''Width2Unit'', ''Address'', ''TaxCode'', ''TaxType'', ''TaxLiable'', ''BackOrder'',
    ''FreeText'', ''ShippingMethod'', ''CorrectionInvoiceItem'', ''CorrInvAmountToStock'', ''CorrInvAmountToDiffAcct'', ''WTLiable'',
    ''DeferredTax'', ''MeasureUnit'', ''UnitsOfMeasurment'', ''LineTotal'', ''TaxPercentagePerRow'', ''TaxTotal'',
    ''ConsumerSalesForecast'', ''ExciseAmount'', ''CountryOrg'', ''SWW'', ''TransactionType'', ''DistributeExpense'',
    ''RowTotalFC'', ''CFOPCode'', ''CSTCode'', ''Usage'', ''TaxOnly'', ''UnitPrice'',
    ''LineStatus'', ''PackageQuantity'', ''LineType'', ''COGSCostingCode'', ''COGSAccountCode'', ''ChangeAssemlyBoMWarehouse'',
    ''GrossBuyPrice'', ''GrossBase'', ''GrossProfitTotalBasePrice'', ''CostingCode2'', ''CostingCode3'', ''CostingCode4'',
    ''CostingCode5'', ''ItemDetails'', ''LocationCode'', ''ActualDeliveryDate'', ''ExLineNo'', ''RequiredDate'',
    ''RequiredQuantity'', ''COGSCostingCode2'', ''COGSCostingCode3'', ''COGSCostingCode4'', ''COGSCostingCode5'', ''CSTforIPI'',
    ''CSTforPIS'', ''CSTforCOFINS'', ''CreditOriginCode'', ''WithoutInventoryMovement'', ''AgreementNo'', ''AgreementRowNumber'',
    ''ActualBaseEntry'', ''ActualBaseLine'', ''DocEntry'', ''Surpluses'', ''DefectAndBreakup'', ''Shortages'',
    ''ConsiderQuantity'', ''PartialRetirement'', ''RetirementQuantity'', ''RetirementAPC'', ''ThirdParty'', ''PoNum'',
    ''PoItmNum'', ''ExpenseType'', ''ReceiptNumber'', ''ExpenseOperationType'', ''FederalTaxID'', ''GrossProfit'',
    ''GrossProfitFC'', ''GrossProfitSC'', ''UoMEntry'', ''InventoryQuantity'', ''ParentLineNum'', ''Incoterms'',
    ''TransportMode'', ''NatureOfTransaction'', ''DestinationCountryForImport'', ''DestinationRegionForImport'', ''OriginCountryForExport'', ''OriginRegionForExport'',
    ''ChangeInventoryQuantityIndependently'', ''FreeOfChargeBP'', ''SACEntry'', ''HSNEntry'', ''GrossPrice'', ''GrossTotal'',
    ''GrossTotalFC'', ''NCMCode'', ''NVECode'', ''IndEscala'', ''CtrSealQty'', ''CNJPMan'',
    ''CESTCode'', ''UFFiscalBenefitCode'', ''ReverseCharge'', ''ShipToCode'', ''ShipToDescription'', ''OwnerCode'',
    ''ExternalCalcTaxRate'', ''ExternalCalcTaxAmount'', ''StandardItemIdentification'', ''CommodityClassification'', ''UnencumberedReason'', ''CUSplit'',
    ''U_ZL_SlpCode'', ''U_ZL_SlpName'', ''U_ZL_CardCode'', ''U_ZL_CardName'', ''U_ZL_InvoiceNum'', ''U_ZL_ItemCode'',
    ''U_ZL_ItemName'', ''U_BonusItem'', ''U_HasAlternativeItem'', ''U_PermitNum'', ''U_Has_EPoint'', ''U_PI_Qty'',
    ''U_PI_Price'', ''U_Redemption'', ''U_EPoint_Redeemed'', ''U_Rebate_RefNum'', ''U_SLS_Remarks1'', ''U_SLS_Remarks2'',
    ''U_SLS_Remarks3'', ''U_SLS_Remarks4'', ''U_SLS_Remarks5'', ''U_GSTSGDRate'', ''U_GSTSGDAmt'', ''U_Related_SO_Number'',
    ''U_Related_SO_LineNum'', ''U_QUT_Calc_BOM_Cost'', ''U_RDR_HasSpcTerms'', ''U_RDR_SpcPayTerms'', ''U_TRF_SerialNum'', ''U_ELTO_DefIncInd'',
    ''U_ELTO_ConStrDat'', ''U_ELTO_ConEndDat'', ''U_ELTO_FreqBill'', ''U_ELTO_FreqAdvRev'', ''U_ELTO_BillStrDat'', ''U_ELTO_LseQty'',
    ''U_ELTO_CustPO'', ''U_ELTO_EstBillAmt'', ''U_ELTO_BillId'', ''U_ELTO_BillLine'', ''U_ELTO_NoCustPOApp'', ''U_ELTO_Lease'',
    ''U_ELTO_LseItmCde'', ''U_ELTO_LseItmDsc'', ''U_ELTO_LseWhs'', ''U_ELTO_LseDlvQty'', ''U_ELTO_LseRtnQty'', ''U_ELTO_RevSchType'',
    ''U_ELTO_ContractQty'', ''U_ELTO_QtyConPrice'', ''U_ELTO_Prorata'', ''U_ELTO_BillPeriodFr'', ''U_ELTO_BillPeriodTo'', ''U_ELTO_BaseDocEntry'',
    ''U_ELTO_BaseDocNum'', ''U_ELTO_BaseRow'', ''U_FIN_Shown'', ''U_PL_CartonNum'', ''U_PL_KgCarton'', ''U_PL_MYRegNum'',
    ''U_TRF_VIT_Prc'', ''U_TRF_SellingPrice'', ''U_UnitPriceBP'', ''U_POCountry'', ''U_Invoice_No'', ''U_Invoice_Item'',
    ''U_Return_Ref_No'', ''U_P_Customer_Code'', ''U_ZP_Item_Code'', ''U_Credit_Reason'', ''U_List_Price'', ''U_ZP_Customer_Code'',
    ''U_Customer_Name'', ''U_ZP_Invoice_Item'', ''U_Customer_State'', ''U_Cust_Territory'', ''U_TempDivision'', ''U_RecLines'',
    ''U_COO'', ''U_TfrBinTo'', ''U_TrfFromBin'', ''U_GRN'']"

definition RDR1_HEADER_ROW2 :: "string list" where
  "RDR1_HEADER_ROW2 = [
    ''DocNum'', ''LineNum'', ''ItemCode'', ''Dscription'', ''Quantity'', ''ShipDate'',
    ''Price'', ''PriceAfVAT'', ''Currency'', ''Rate'', ''DiscPrcnt'', ''VendorNum'',
    ''SerialNum'', ''WhsCode'', ''SlpCode'', ''Commission'', ''TreeType'', ''AcctCode'',
    ''UseBaseUn'', ''SubCatNum'', ''OcrCode'', ''Project'', ''CodeBars'', ''VatGroup'',
    ''Height1'', ''Hght1Unit'', ''Height2'', ''Hght2Unit'', ''Length1'', ''Len1Unit'',
    ''length2'', ''Len2Unit'', ''Weight1'', ''Wght1Unit'', ''Weight2'', ''Wght2Unit'',
    ''Factor1'', ''Factor2'', ''Factor3'', ''Factor4'', ''BaseType'', ''BaseEntry'',
    ''BaseLine'', ''Volume'', ''VolUnit'', ''Width1'', ''Wdth1Unit'', ''Width2'',
    ''Wdth2Unit'', ''Address'', ''TaxCode'', ''TaxType'', ''TaxStatus'', ''BackOrdr'',
    ''FreeTxt'', ''TrnsCode'', ''CEECFlag'', ''ToStock'', ''ToDiff'', ''WtLiable'',
    ''DeferrTax'', ''unitMsr'', ''NumPerMsr'', ''LineTotal'', ''VatPrcnt'', ''VatSum'',
    ''ConsumeFCT'', ''ExciseAmt'', ''CountryOrg'', ''SWW'', ''TranType'', ''DistribExp'',
    ''TotalFrgn'', ''CFOPCode'', ''CSTCode'', ''Usage'', ''TaxOnly'', ''PriceBefDi'',
    ''LineStatus'', ''PackQty'', ''LineType'', ''CogsOcrCod'', ''CogsAcct'', ''ChgAsmBoMW'',
    ''GrossBuyPr'', ''GrossBase'', ''GPTtlBasPr'', ''OcrCode2'', ''OcrCode3'', ''OcrCode4'',
    ''OcrCode5'', ''Text'', ''LocCode'', ''ActDelDate'', ''ExLineNo'', ''PQTReqDate'',
    ''PQTReqQty'', ''CogsOcrCo2'', ''CogsOcrCo3'', ''CogsOcrCo4'', ''CogsOcrCo5'', ''CSTfIPI'',
    ''CSTfPIS'', ''CSTfCOFINS'', ''CredOrigin'', ''NoInvtryMv'', ''AgrNo'', ''AgrLnNum'',
    ''ActBaseEnt'', ''ActBaseLn'', ''DocEntry'', ''Surpluses'', ''DefBreak'', ''Shortages'',
    ''NeedQty'', ''PartRetire'', ''RetireQty'', ''RetireAPC'', ''ThirdParty'', ''PoNum'',
    ''PoItmNum'', ''ExpType'', ''ExpUUID'', ''ExpOpType'', ''LicTradNum'', ''GrssProfit'',
    ''GrssProfFC'', ''GrssProfSC'', ''SpecPrice'', ''UomEntry'', ''InvQty'', ''PrntLnNum'',
    ''Incoterms'', ''TransMod'', ''NatOfTrans'', ''ISDtCryImp'', ''ISDtRgnImp'', ''ISOrCryExp'',
    ''ISOrRgnExp'', ''InvQtyOnly'', ''FreeChrgBP'', ''SacEntry'', ''HsnEntry'', ''GPBefDisc'',
    ''GTotal'', ''GTotalFC'', ''NCMCode'', ''NVECode'', ''IndEscala'', ''CtrSealQty'',
    ''CNJPMan'', ''CESTCode'', ''UFFiscBene'', ''RevCharge'', ''ShipToCode'', ''ShipToDesc'',
    ''OwnerCode'', ''ExtTaxRate'', ''ExtTaxSum'', ''ExtTaxSumF'', ''ExtTaxSumS'', ''StdItemId'',
    ''CommClass'', ''UnencReasn'', ''CUSplit'', ''U_ZL_SlpCode'', ''U_ZL_SlpName'', ''U_ZL_CardCode'',
    ''U_ZL_CardName'', ''U_ZL_InvoiceNum'', ''U_ZL_ItemCode'', ''U_ZL_ItemName'', ''U_BonusItem'', ''U_HasAlternativeItem'',
    ''U_PermitNum'', ''U_Has_EPoint'', ''U_PI_Qty'', ''U_PI_Price'', ''U_Redemption'', ''U_EPoint_Redeemed'',
    ''U_Rebate_RefNum'', ''U_SLS_Remarks1'', ''U_SLS_Remarks2'', ''U_SLS_Remarks3'', ''U_SLS_Remarks4'', ''U_SLS_Remarks5'',
    ''U_GSTSGDRate'', ''U_GSTSGDAmt'', ''U_Related_SO_Number'', ''U_Related_SO_LineNum'', ''U_QUT_Calc_BOM_Cost'', ''U_RDR_HasSpcTerms'',
    ''U_RDR_SpcPayTerms'', ''U_TRF_SerialNum'', ''U_ELTO_DefIncInd'', ''U_ELTO_ConStrDat'', ''U_ELTO_ConEndDat'', ''U_ELTO_FreqBill'',
    ''U_ELTO_FreqAdvRev'', ''U_ELTO_BillStrDat'', ''U_ELTO_LseQty'', ''U_ELTO_CustPO'', ''U_ELTO_EstBillAmt'', ''U_ELTO_BillId'',
    ''U_ELTO_BillLine'', ''U_ELTO_NoCustPOApp'', ''U_ELTO_Lease'', ''U_ELTO_LseItmCde'', ''U_ELTO_LseItmDsc'', ''U_ELTO_LseWhs'',
    ''U_ELTO_LseDlvQty'', ''U_ELTO_LseRtnQty'', ''U_ELTO_RevSchType'', ''U_ELTO_ContractQty'', ''U_ELTO_QtyConPrice'', ''U_ELTO_Prorata'',
    ''U_ELTO_BillPeriodFr'', ''U_ELTO_BillPeriodTo'', ''U_ELTO_BaseDocEntry'', ''U_ELTO_BaseDocNum'', ''U_ELTO_BaseRow'', ''U_FIN_Shown'',
    ''U_PL_CartonNum'', ''U_PL_KgCarton'', ''U_PL_MYRegNum'', ''U_TRF_VIT_Prc'', ''U_TRF_SellingPrice'', ''U_UnitPriceBP'',
    ''U_POCountry'', ''U_Invoice_No'', ''U_Invoice_Item'', ''U_Return_Ref_No'', ''U_P_Customer_Code'', ''U_ZP_Item_Code'',
    ''U_Credit_Reason'', ''U_List_Price'', ''U_ZP_Customer_Code'', ''U_Customer_Name'', ''U_ZP_Invoice_Item'', ''U_Customer_State'',
    ''U_Cust_Territory'', ''U_TempDivision'', ''U_RecLines'', ''U_COO'']"

section \<open>File generation\<close>

definition format_date :: "pyenv \<Rightarrow> cell \<Rightarrow> string" where
  "format_date E val =
     (if isna val then []
      else case val of
             IntV i \<Rightarrow> dec_int i
           | FloatV x \<Rightarrow> dec_int (trunc x)
           | _ \<Rightarrow> strip (py_str E val))"

definition safe_str :: "pyenv \<Rightarrow> cell \<Rightarrow> string" where
  "safe_str E val =
     (if isna val then []
      else case val of
             FloatV x \<Rightarrow> if x = of_int (trunc x) then dec_int (trunc x) else float_repr E x
           | _ \<Rightarrow> strip (py_str E val))"

text \<open>\<open>sep.join(xs)\<close>.\<close>

fun join :: "'a list \<Rightarrow> 'a list list \<Rightarrow> 'a list" where
  "join sep [] = []"
| "join sep [x] = x"
| "join sep (x # y # ys) = x @ sep @ join sep (y # ys)"

definition ordr_data :: "pyenv \<Rightarrow> series \<Rightarrow> string list" where
  "ordr_data E row =
     (replicate ORDR_TOTAL_COLS [])
       [pos ORDR_FIELDS ''DocNum'' := safe_str E (get row ''Order #''),
        pos ORDR_FIELDS ''DocType'' := ''dDocument_Items'',
        pos ORDR_FIELDS ''DocDate'' := format_date E (get row ''Document Date''),
        pos ORDR_FIELDS ''DocDueDate'' := format_date E (get row ''Due Date''),
        pos ORDR_FIELDS ''CardCode'' := safe_str E (get row ''Customer Code''),
        pos ORDR_FIELDS ''SalesPersonCode'' := safe_str E (get row ''Sales Code''),
        pos ORDR_FIELDS ''U_AllowDOInv_Dep'' := ''Y'',
        pos ORDR_FIELDS ''U_GSTSGDRate'' := safe_str E (get_default row ''Branch ID'' (IntV 9))]"

fun ordr_loop :: "pyenv \<Rightarrow> (nat \<times> series) list \<Rightarrow> string list \<Rightarrow> string list" where
  "ordr_loop E [] lines = lines"
| "ordr_loop E ((idx, row) # rest) lines =
     (if blank E (get row ''Order #'') then ordr_loop E rest lines
      else ordr_loop E rest (lines @ [join [TAB] (ordr_data E row)]))"

definition generate_ordr_file :: "pyenv \<Rightarrow> table \<Rightarrow> string" where
  "generate_ordr_file E df_orders =
     join CRLF (ordr_loop E (iterrows df_orders)
                  [join [TAB] ORDR_HEADER_ROW1, join [TAB] ORDR_HEADER_ROW2]) @ CRLF"

definition rdr1_data :: "pyenv \<Rightarrow> series \<Rightarrow> string list" where
  "rdr1_data E row =
     (let dim1 = safe_str E (get_default row ''Dim 1'' (StrV []));
          dim2 = safe_str E (get_default row ''Dim 2'' (StrV []));
          dim3 = safe_str E (get_default row ''Dim 3'' (StrV []));
          dim4 = safe_str E (get_default row ''Dim 4'' (StrV []));
          dim5 = safe_str E (get_default row ''Dim 5'' (StrV []))
      in (replicate RDR1_TOTAL_COLS [])
       [pos RDR1_FIELDS ''ParentKey'' := safe_str E (get row ''Parent Order #''),
        pos RDR1_FIELDS ''LineNum'' := safe_str E (get row ''Line #''),
        pos RDR1_FIELDS ''ItemCode'' := safe_str E (get row ''Item Code''),
        pos RDR1_FIELDS ''Quantity'' := safe_str E (get row ''Quantity''),
        pos RDR1_FIELDS ''Price'' := safe_str E (get_default row ''Unit Price'' (StrV [])),
        pos RDR1_FIELDS ''WarehouseCode'' := safe_str E (get row ''Warehouse''),
        pos RDR1_FIELDS ''SalesPersonCode'' := safe_str E (get row ''Sales Code''),
        pos RDR1_FIELDS ''AccountCode'' := safe_str E (get row ''Account Code''),
        pos RDR1_FIELDS ''VatGroup'' := safe_str E (get row ''VAT Group''),
        pos RDR1_FIELDS ''CostingCode'' := dim1,
        pos RDR1_FIELDS ''CostingCode2'' := dim2,
        pos RDR1_FIELDS ''CostingCode3'' := dim3,
        pos RDR1_FIELDS ''CostingCode4'' := dim4,
        pos RDR1_FIELDS ''CostingCode5'' := dim5,
        pos RDR1_FIELDS ''COGSCostingCode'' := dim1,
        pos RDR1_FIELDS ''COGSCostingCode2'' := dim2,
        pos RDR1_FIELDS ''COGSCostingCode3'' := dim3,
        pos RDR1_FIELDS ''COGSCostingCode4'' := dim4,
        pos RDR1_FIELDS ''COGSCostingCode5'' := dim5,
        pos RDR1_FIELDS ''U_PermitNum'' := safe_str E (get_default row ''Permit #'' (StrV [])),
        pos RDR1_FIELDS ''U_GSTSGDRate'' := safe_str E (get_default row ''Branch'' (IntV 9))])"

fun rdr1_loop :: "pyenv \<Rightarrow> (nat \<times> series) list \<Rightarrow> string list \<Rightarrow> string list" where
  "rdr1_loop E [] lines = lines"
| "rdr1_loop E ((idx, row) # rest) lines =
     (if blank E (get row ''Parent Order #'') then rdr1_loop E rest lines
      else rdr1_loop E rest (lines @ [join [TAB] (rdr1_data E row)]))"

definition generate_rdr1_file :: "pyenv \<Rightarrow> table \<Rightarrow> string" where
  "generate_rdr1_file E df_lines =
     join CRLF (rdr1_loop E (iterrows df_lines)
                  [join [TAB] RDR1_HEADER_ROW1, join [TAB] RDR1_HEADER_ROW2]) @ CRLF"

section \<open>The orchestrator\<close>

text \<open>
  The part of \<open>main\<close> between the upload and the generated files.  A workbook is a
  lookup from sheet name to table.  Whatever is raised after the sheets are found
  is caught by the one handler of \<open>main\<close> and shown as a read error.
\<close>

datatype outcome =
    MissingSheets "string list"
  | ReadError py_error
  | Rejected "string list"
  | Generated string string

fun valid_orders_loop :: "pyenv \<Rightarrow> (nat \<times> series) list \<Rightarrow> string set \<Rightarrow> string set" where
  "valid_orders_loop E [] valid_orders = valid_orders"
| "valid_orders_loop E ((idx, row) # rest) valid_orders =
     (if \<not> isna (get row ''Order #'')
      then valid_orders_loop E rest (insert (strip (py_str E (get row ''Order #''))) valid_orders)
      else valid_orders_loop E rest valid_orders)"

definition main :: "pyenv \<Rightarrow> (string \<rightharpoonup> table) \<Rightarrow> outcome" where
  "main E xl =
     (let missing_sheets = filter (\<lambda>s. xl s = None) [''Sales Order Entry'', ''Line Items Entry''] in
      if missing_sheets \<noteq> [] then MissingSheets missing_sheets
      else case (xl ''Sales Order Entry'', xl ''Line Items Entry'') of
        (Some df_orders, Some df_lines) \<Rightarrow>
          if ''Order #'' \<notin> set (columns df_orders) \<or> ''Parent Order #'' \<notin> set (columns df_lines)
          then ReadError KeyError
          else
            let valid_orders = valid_orders_loop E (iterrows df_orders) {};
                order_errors = validate_orders E df_orders
            in (case validate_lines E df_lines valid_orders of
                  Inl e \<Rightarrow> ReadError e
                | Inr line_errors \<Rightarrow>
                    let all_errors = order_errors @ line_errors in
                    if all_errors \<noteq> [] then Rejected all_errors
                    else Generated (generate_ordr_file E df_orders) (generate_rdr1_file E df_lines))
      | _ \<Rightarrow> MissingSheets missing_sheets)"

section \<open>Naming rows and messages in the statements\<close>

text \<open>The cell of row \<open>i\<close> under a column label, as the loops read it.\<close>

definition cell_at :: "table \<Rightarrow> nat \<Rightarrow> string \<Rightarrow> cell" where
  "cell_at df i k = get (snd (iterrows df ! i)) k"

text \<open>Whether row \<open>i\<close> of the order table is skipped, and its trimmed key.\<close>

definition order_blank :: "pyenv \<Rightarrow> table \<Rightarrow> nat \<Rightarrow> bool" where
  "order_blank E df i = blank E (cell_at df i ''Order #'')"

definition order_key :: "pyenv \<Rightarrow> table \<Rightarrow> nat \<Rightarrow> string" where
  "order_key E df i = strip (py_str E (cell_at df i ''Order #''))"

text \<open>The same for the line table.\<close>

definition line_blank :: "pyenv \<Rightarrow> table \<Rightarrow> nat \<Rightarrow> bool" where
  "line_blank E df i = blank E (cell_at df i ''Parent Order #'')"

definition parent_key :: "pyenv \<Rightarrow> table \<Rightarrow> nat \<Rightarrow> string" where
  "parent_key E df i = strip (py_str E (cell_at df i ''Parent Order #''))"




text \<open>What \<open>main\<close> passes to \<open>validate_lines\<close>.\<close>

definition valid_orders_of :: "pyenv \<Rightarrow> table \<Rightarrow> string set" where
  "valid_orders_of E df_orders = valid_orders_loop E (iterrows df_orders) {}"

section \<open>Example tables\<close>

definition order_columns :: "string list" where
  "order_columns = [''Order #'', ''Document Date'', ''Due Date'', ''Customer Code'',
     ''Sales Code'', ''Branch ID'']"

definition line_columns :: "string list" where
  "line_columns = [''Parent Order #'', ''Line #'', ''Item Code'', ''Quantity'', ''Unit Price'',
     ''Warehouse'', ''Sales Code'', ''Account Code'', ''VAT Group'',
     ''Dim 1'', ''Dim 2'', ''Dim 3'', ''Dim 4'', ''Dim 5'', ''Permit #'', ''Branch'']"


text \<open>A clean batch: two orders, two lines under the first and one under the second.\<close>

definition orders_clean :: table where
  "orders_clean = \<lparr>columns = order_columns,
     rows = [[StrV ''SO1001'', StrV ''20260101'', StrV ''20260110'', StrV ''C001'', IntV 48, IntV 9],
             [StrV ''SO1002'', IntV 20260102, IntV 20260111, StrV ''C002'', IntV 48, IntV 9]]\<rparr>"



text \<open>A line whose quantity is text that is no number.\<close>

definition lines_bad_quantity :: table where
  "lines_bad_quantity = \<lparr>columns = line_columns,
     rows = [[StrV ''SO1001'', IntV 1, StrV ''ITM1'', StrV ''abc'', NA, StrV ''SG01'', IntV 48,
                StrV ''ACC1'', StrV ''SR'', NA, NA, NA, NA, NA, NA, IntV 9]]\<rparr>"





text \<open>An order whose Branch ID cell is empty, the same order in a sheet without that column, and a line whose Branch cell is empty.\<close>

definition orders_branch_empty :: table where
  "orders_branch_empty = \<lparr>columns = order_columns,
     rows = [[StrV ''SO1001'', StrV ''20260101'', StrV ''20260110'', StrV ''C001'', IntV 48, NA]]\<rparr>"

definition orders_branch_absent :: table where
  "orders_branch_absent = \<lparr>columns = [''Order #'', ''Document Date'', ''Due Date'', ''Customer Code'', ''Sales Code''],
     rows = [[StrV ''SO1001'', StrV ''20260101'', StrV ''20260110'', StrV ''C001'', IntV 48]]\<rparr>"

definition lines_branch_empty :: table where
  "lines_branch_empty = \<lparr>columns = line_columns,
     rows = [[StrV ''SO1001'', IntV 1, StrV ''ITM1'', IntV 10, NA, StrV ''SG01'', IntV 48,
                StrV ''ACC1'', StrV ''SR'', NA, NA, NA, NA, NA, NA, NA]]\<rparr>"



section \<open>Lines and tabs of a file\<close>




section \<open>Date format\<close>

lemmas date_eval_defs = validate_date_format_def isdigit_def is_digit_def ascii_digit_def
  digit_chars_def int_of_digits_def slice_def digits_value_def digit_val_def

lemma int_of_digits_slice:
  assumes "list_all ascii_digit s" and "a < b" and "b \<le> length s"
  shows "int_of_digits (slice a b s) = Some (digits_value (slice a b s))"
proof -
  have "list_all ascii_digit (slice a b s)"
    using assms(1) by (auto simp: slice_def list_all_iff dest: in_set_takeD in_set_dropD)
  moreover have "slice a b s \<noteq> []"
    using assms(2,3) by (simp add: slice_def)
  ultimately show ?thesis by (simp add: int_of_digits_def)
qed

lemma isdigit_ascii: "s \<noteq> [] \<Longrightarrow> list_all ascii_digit s \<Longrightarrow> isdigit s"
  by (auto simp: isdigit_def is_digit_def list_all_iff)

lemma validate_date_format_digits:
  assumes "length s = 8" and "list_all ascii_digit s"
    and "1900 \<le> digits_value (slice 0 4 s)" and "digits_value (slice 0 4 s) \<le> 2100"
    and "1 \<le> digits_value (slice 4 6 s)" and "digits_value (slice 4 6 s) \<le> 12"
    and "1 \<le> digits_value (slice 6 8 s)" and "digits_value (slice 6 8 s) \<le> 31"
  shows "validate_date_format E (StrV s)"
proof -
  have ne: "s \<noteq> []" using assms(1) by auto
  have y: "int_of_digits (slice 0 4 s) = Some (digits_value (slice 0 4 s))"
    using assms(1,2) by (intro int_of_digits_slice) auto
  have m: "int_of_digits (slice 4 6 s) = Some (digits_value (slice 4 6 s))"
    using assms(1,2) by (intro int_of_digits_slice) auto
  have d: "int_of_digits (slice 6 8 s) = Some (digits_value (slice 6 8 s))"
    using assms(1,2) by (intro int_of_digits_slice) auto
  show ?thesis
    using assms isdigit_ascii [OF ne assms(2)]
    by (simp add: validate_date_format_def y m d)
qed

text \<open>
  C6.  \<open>validate_date_format\<close> accepts \<open>"20260115"\<close>, and every string of eight
  decimal digits whose first four digits read a year from 1900 to 2100, the next two
  a month from 1 to 12 and the last two a day from 1 to 31; the days of the month are
  not counted, so \<open>"20260231"\<close> is accepted.  It rejects \<open>"2026115"\<close>,
  \<open>"20261301"\<close>, \<open>"abcd0115"\<close>, a missing value and the empty string.
\<close>

theorem validate_date_format_cases:
  "validate_date_format E (StrV ''20260115'')
   \<and> validate_date_format E (StrV ''20260231'')
   \<and> \<not> validate_date_format E (StrV ''2026115'')
   \<and> \<not> validate_date_format E (StrV ''20261301'')
   \<and> \<not> validate_date_format E (StrV ''abcd0115'')
   \<and> \<not> validate_date_format E NA
   \<and> \<not> validate_date_format E (StrV [])
   \<and> (length s = 8 \<and> list_all ascii_digit s
        \<and> 1900 \<le> digits_value (slice 0 4 s) \<and> digits_value (slice 0 4 s) \<le> 2100
        \<and> 1 \<le> digits_value (slice 4 6 s) \<and> digits_value (slice 4 6 s) \<le> 12
        \<and> 1 \<le> digits_value (slice 6 8 s) \<and> digits_value (slice 6 8 s) \<le> 31
      \<longrightarrow> validate_date_format E (StrV s))"
proof (intro conjI impI)
  show "validate_date_format E (StrV ''20260115'')" by (simp add: date_eval_defs)
  show "validate_date_format E (StrV ''20260231'')" by (simp add: date_eval_defs)
  show "\<not> validate_date_format E (StrV ''2026115'')" by (simp add: date_eval_defs)
  show "\<not> validate_date_format E (StrV ''20261301'')" by (simp add: date_eval_defs)
  show "\<not> validate_date_format E (StrV ''abcd0115'')" by (simp add: date_eval_defs)
  show "\<not> validate_date_format E NA" by (simp add: validate_date_format_def)
  show "\<not> validate_date_format E (StrV [])" by (simp add: validate_date_format_def)
next
  assume "length s = 8 \<and> list_all ascii_digit s
        \<and> 1900 \<le> digits_value (slice 0 4 s) \<and> digits_value (slice 0 4 s) \<le> 2100
        \<and> 1 \<le> digits_value (slice 4 6 s) \<and> digits_value (slice 4 6 s) \<le> 12
        \<and> 1 \<le> digits_value (slice 6 8 s) \<and> digits_value (slice 6 8 s) \<le> 31"
  then show "validate_date_format E (StrV s)"
    by (intro validate_date_format_digits) auto
qed

theorem validate_date_format_cases_witness:
  "length ''19991231'' = 8 \<and> list_all ascii_digit ''19991231''
   \<and> digits_value (slice 0 4 ''19991231'') = 1999
   \<and> digits_value (slice 4 6 ''19991231'') = 12
   \<and> digits_value (slice 6 8 ''19991231'') = 31
   \<and> validate_date_format plain (StrV ''19991231'')"
proof -
  have h: "length ''19991231'' = 8 \<and> list_all ascii_digit ''19991231''
   \<and> digits_value (slice 0 4 ''19991231'') = 1999
   \<and> digits_value (slice 4 6 ''19991231'') = 12
   \<and> digits_value (slice 6 8 ''19991231'') = 31"
    by (simp add: ascii_digit_def digit_chars_def slice_def digits_value_def digit_val_def)
  with validate_date_format_cases [of plain "''19991231''"] show ?thesis
    by simp
qed

section \<open>Row messages determine their row\<close>

lemma digit_val_nth: "d < 10 \<Longrightarrow> digit_val (digit_chars ! d) = d"
proof -
  assume "d < 10"
  then have "d \<in> {0,1,2,3,4,5,6,7,8,9}" by auto
  then show ?thesis
    by (auto simp: digit_val_def digit_chars_def)
qed

lemma ascii_digit_nth: "d < 10 \<Longrightarrow> ascii_digit (digit_chars ! d)"
proof -
  assume "d < 10"
  then have "d \<in> {0,1,2,3,4,5,6,7,8,9}" by auto
  then show ?thesis
    by (auto simp: ascii_digit_def digit_chars_def)
qed

lemma digits_value_snoc: "digits_value (s @ [c]) = 10 * digits_value s + digit_val c"
  by (simp add: digits_value_def)

lemma dec_nat_digits: "list_all ascii_digit (dec_nat n)"
  by (induction n rule: dec_nat.induct) (subst dec_nat.simps, simp add: ascii_digit_nth)

lemma digits_value_dec_nat: "digits_value (dec_nat n) = n"
proof (induction n rule: dec_nat.induct)
  case (1 n)
  show ?case
  proof (cases "n < 10")
    case True
    then show ?thesis
      using digits_value_snoc [of "[]" "digit_chars ! n"]
      by (subst dec_nat.simps) (simp add: digit_val_nth digits_value_def)
  next
    case False
    with 1 show ?thesis
      by (subst dec_nat.simps) (simp add: digits_value_snoc digit_val_nth)
  qed
qed

lemma dec_nat_inj: "dec_nat n = dec_nat m \<Longrightarrow> n = m"
  by (metis digits_value_dec_nat)

lemma takeWhile_digits:
  "list_all ascii_digit ds \<Longrightarrow> takeWhile ascii_digit (ds @ CHR '':'' # r) = ds"
  by (induction ds) (simp_all add: ascii_digit_def digit_chars_def)

lemma row_msg_inj:
  assumes "row_msg n b = row_msg m c"
  shows "n = m \<and> b = c"
proof -
  from assms have eq: "dec_nat n @ CHR '':'' # CHR '' '' # b = dec_nat m @ CHR '':'' # CHR '' '' # c"
    by (simp add: row_msg_def)
  then have "takeWhile ascii_digit (dec_nat n @ CHR '':'' # CHR '' '' # b)
           = takeWhile ascii_digit (dec_nat m @ CHR '':'' # CHR '' '' # c)"
    by simp
  then have d: "dec_nat n = dec_nat m"
    by (simp add: takeWhile_digits dec_nat_digits)
  with eq show ?thesis by (simp add: dec_nat_inj)
qed

lemma row_msg_eq_iff [simp]: "row_msg n b = row_msg m c \<longleftrightarrow> n = m \<and> b = c"
  using row_msg_inj by blast

lemma no_orders_not_row [simp]: "no_orders_msg \<noteq> row_msg n b"
  by (simp add: no_orders_msg_def row_msg_def)

lemma no_lines_not_row [simp]: "no_lines_msg \<noteq> row_msg n b"
  by (simp add: no_lines_msg_def row_msg_def)

section \<open>Duplicate order keys\<close>

lemma quoted_eq_iff [simp]: "quoted a = quoted b \<longleftrightarrow> a = b"
  by (simp add: quoted_def)












lemmas table_eval = iterrows_def enumerate_eq_zip get_def get_default_def blank_def strip_def is_space_def
  cell_at_def order_blank_def order_key_def line_blank_def parent_key_def order_columns_def line_columns_def


section \<open>Line validation, row by row\<close>








section \<open>Dangling parents\<close>







text \<open>
  In \<open>main\<close> the key set is built from the order table first and handed to
  \<open>validate_lines\<close>.
\<close>

lemma main_validates_with_order_keys:
  assumes "xl ''Sales Order Entry'' = Some df_orders" and "xl ''Line Items Entry'' = Some df_lines"
    and "''Order #'' \<in> set (columns df_orders)" and "''Parent Order #'' \<in> set (columns df_lines)"
  shows "main E xl =
     (case validate_lines E df_lines (valid_orders_of E df_orders) of
        Inl e \<Rightarrow> ReadError e
      | Inr line_errors \<Rightarrow>
          if validate_orders E df_orders @ line_errors \<noteq> []
          then Rejected (validate_orders E df_orders @ line_errors)
          else Generated (generate_ordr_file E df_orders) (generate_rdr1_file E df_lines))"
  using assms by (simp add: main_def Let_def valid_orders_of_def split: sum.splits)


lemmas lines_eval = validate_lines_def df_empty_def table_eval line_row_errors_def quantity_errors_def
  valid_orders_of_def Let_def dec_int_def dec_nat.simps digit_chars_def


lemma plain_parse_abc: "float_parse plain ''abc'' = None"
  by (simp add: plain_def plain_parse_def strip_def is_space_def ascii_digit_def digit_chars_def)

lemma lines_bad_quantity_result:
  "validate_lines plain lines_bad_quantity (valid_orders_of plain orders_clean) = Inl ValueError"
  by (simp add: lines_eval lines_bad_quantity_def orders_clean_def plain_parse_abc)


section \<open>Presence checks of a line\<close>



section \<open>A quantity that is no number\<close>

lemma main_bad_quantity:
  "main plain [''Sales Order Entry'' \<mapsto> orders_clean, ''Line Items Entry'' \<mapsto> lines_bad_quantity]
     = ReadError ValueError"
proof -
  have c1: "''Order #'' \<in> set (columns orders_clean)"
    by (simp add: orders_clean_def order_columns_def)
  have c2: "''Parent Order #'' \<in> set (columns lines_bad_quantity)"
    by (simp add: lines_bad_quantity_def line_columns_def)
  show ?thesis
    using lines_bad_quantity_result c1 c2
    by (simp add: main_def Let_def valid_orders_of_def)
qed

text \<open>
  C4.  On a line whose Quantity cell holds the text \<open>abc\<close>, \<open>float()\<close> raises
  \<open>ValueError\<close> inside \<open>validate_lines\<close>: no error list is returned.  (\<open>main\<close> then
  shows the exception as a failure to read the file.)
\<close>

theorem validate_lines_bad_quantity_raises:
  "cell_at lines_bad_quantity 0 ''Quantity'' = StrV ''abc''
   \<and> validate_lines plain lines_bad_quantity (valid_orders_of plain orders_clean) = Inl ValueError"
proof -
  have "cell_at lines_bad_quantity 0 ''Quantity'' = StrV ''abc''"
    by (simp add: lines_bad_quantity_def table_eval)
  with lines_bad_quantity_result show ?thesis by simp
qed

section \<open>Tables with nothing to validate\<close>













section \<open>The records\<close>

lemma ordr_pos:
  "pos ORDR_FIELDS ''DocNum'' = 0" "pos ORDR_FIELDS ''DocType'' = 2"
  "pos ORDR_FIELDS ''DocDate'' = 5" "pos ORDR_FIELDS ''DocDueDate'' = 6"
  "pos ORDR_FIELDS ''CardCode'' = 7" "pos ORDR_FIELDS ''SalesPersonCode'' = 21"
  "pos ORDR_FIELDS ''U_AllowDOInv_Dep'' = 198" "pos ORDR_FIELDS ''U_GSTSGDRate'' = 202"
  by (simp_all add: pos_def ORDR_FIELDS_def)

lemma rdr1_pos:
  "pos RDR1_FIELDS ''ParentKey'' = 0" "pos RDR1_FIELDS ''LineNum'' = 1"
  "pos RDR1_FIELDS ''ItemCode'' = 2" "pos RDR1_FIELDS ''Quantity'' = 4"
  "pos RDR1_FIELDS ''Price'' = 6" "pos RDR1_FIELDS ''WarehouseCode'' = 13"
  "pos RDR1_FIELDS ''SalesPersonCode'' = 14" "pos RDR1_FIELDS ''AccountCode'' = 17"
  "pos RDR1_FIELDS ''CostingCode'' = 20" "pos RDR1_FIELDS ''VatGroup'' = 23"
  "pos RDR1_FIELDS ''COGSCostingCode'' = 81" "pos RDR1_FIELDS ''CostingCode2'' = 87"
  "pos RDR1_FIELDS ''CostingCode3'' = 88" "pos RDR1_FIELDS ''CostingCode4'' = 89"
  "pos RDR1_FIELDS ''CostingCode5'' = 90" "pos RDR1_FIELDS ''COGSCostingCode2'' = 97"
  "pos RDR1_FIELDS ''COGSCostingCode3'' = 98" "pos RDR1_FIELDS ''COGSCostingCode4'' = 99"
  "pos RDR1_FIELDS ''COGSCostingCode5'' = 100" "pos RDR1_FIELDS ''U_PermitNum'' = 171"
  "pos RDR1_FIELDS ''U_GSTSGDRate'' = 183"
  by (simp_all add: pos_def RDR1_FIELDS_def)



text \<open>Every position of an order record.\<close>

lemma ordr_data_nth:
  "i < 271 \<Longrightarrow> ordr_data E row ! i =
     (if i = 0 then safe_str E (get row ''Order #'')
      else if i = 2 then ''dDocument_Items''
      else if i = 5 then format_date E (get row ''Document Date'')
      else if i = 6 then format_date E (get row ''Due Date'')
      else if i = 7 then safe_str E (get row ''Customer Code'')
      else if i = 21 then safe_str E (get row ''Sales Code'')
      else if i = 198 then ''Y''
      else if i = 202 then safe_str E (get_default row ''Branch ID'' (IntV 9))
      else [])"
  unfolding ordr_data_def ordr_pos ORDR_TOTAL_COLS_def
  by (simp add: nth_list_update)

text \<open>Every position of a line record.\<close>

lemma rdr1_data_nth:
  "i < 244 \<Longrightarrow> rdr1_data E row ! i =
     (if i = 0 then safe_str E (get row ''Parent Order #'')
      else if i = 1 then safe_str E (get row ''Line #'')
      else if i = 2 then safe_str E (get row ''Item Code'')
      else if i = 4 then safe_str E (get row ''Quantity'')
      else if i = 6 then safe_str E (get_default row ''Unit Price'' (StrV []))
      else if i = 13 then safe_str E (get row ''Warehouse'')
      else if i = 14 then safe_str E (get row ''Sales Code'')
      else if i = 17 then safe_str E (get row ''Account Code'')
      else if i = 20 \<or> i = 81 then safe_str E (get_default row ''Dim 1'' (StrV []))
      else if i = 23 then safe_str E (get row ''VAT Group'')
      else if i = 87 \<or> i = 97 then safe_str E (get_default row ''Dim 2'' (StrV []))
      else if i = 88 \<or> i = 98 then safe_str E (get_default row ''Dim 3'' (StrV []))
      else if i = 89 \<or> i = 99 then safe_str E (get_default row ''Dim 4'' (StrV []))
      else if i = 90 \<or> i = 100 then safe_str E (get_default row ''Dim 5'' (StrV []))
      else if i = 171 then safe_str E (get_default row ''Permit #'' (StrV []))
      else if i = 183 then safe_str E (get_default row ''Branch'' (IntV 9))
      else [])"
  unfolding rdr1_data_def rdr1_pos RDR1_TOTAL_COLS_def Let_def
  by (simp add: nth_list_update)

section \<open>Dimension mirroring\<close>


section \<open>Constants and the branch default of a record\<close>

lemma safe_str_nine: "safe_str E (IntV 9) = ''9''"
  by (simp add: safe_str_def dec_int_def dec_nat.simps digit_chars_def strip_def is_space_def)

text \<open>
  What the code does for the three positions C7 names: the two constants always; the
  branch becomes \<open>9\<close> when the sheet has no such column, and the empty string when
  the column is there and the cell is empty.
\<close>

lemma ordr_constants_and_branch:
  "ordr_data E row ! 2 = ''dDocument_Items''"
  "ordr_data E row ! 198 = ''Y''"
  "ordr_data E row ! 202 = safe_str E (get_default row ''Branch ID'' (IntV 9))"
  "row ''Branch ID'' = None \<Longrightarrow> ordr_data E row ! 202 = ''9''"
  "row ''Branch ID'' = Some NA \<Longrightarrow> ordr_data E row ! 202 = []"
  "rdr1_data E row ! 183 = safe_str E (get_default row ''Branch'' (IntV 9))"
  "row ''Branch'' = None \<Longrightarrow> rdr1_data E row ! 183 = ''9''"
  "row ''Branch'' = Some NA \<Longrightarrow> rdr1_data E row ! 183 = []"
  by (simp_all add: ordr_data_nth rdr1_data_nth get_default_def safe_str_nine)
     (simp_all add: safe_str_def)

text \<open>
  C7.  An order whose Branch ID cell is empty gets the empty string at the rate
  position 202, not \<open>9\<close>; the same holds at position 183 of a line whose Branch cell
  is empty.  In a sheet without the column the order gets \<open>9\<close>.
\<close>

theorem branch_default_skips_empty_cell:
  "cell_at orders_branch_empty 0 ''Branch ID'' = NA
   \<and> \<not> order_blank plain orders_branch_empty 0
   \<and> ordr_data plain (snd (iterrows orders_branch_empty ! 0)) ! 2 = ''dDocument_Items''
   \<and> ordr_data plain (snd (iterrows orders_branch_empty ! 0)) ! 198 = ''Y''
   \<and> ordr_data plain (snd (iterrows orders_branch_empty ! 0)) ! 202 = []
   \<and> ordr_data plain (snd (iterrows orders_branch_absent ! 0)) ! 202 = ''9''
   \<and> cell_at lines_branch_empty 0 ''Branch'' = NA
   \<and> \<not> line_blank plain lines_branch_empty 0
   \<and> rdr1_data plain (snd (iterrows lines_branch_empty ! 0)) ! 183 = []"
proof -
  have 1: "cell_at orders_branch_empty 0 ''Branch ID'' = NA"
    and 2: "\<not> order_blank plain orders_branch_empty 0"
    and r1: "snd (iterrows orders_branch_empty ! 0) ''Branch ID'' = Some NA"
    by (simp_all add: orders_branch_empty_def table_eval)
  have r2: "snd (iterrows orders_branch_absent ! 0) ''Branch ID'' = None"
    by (simp add: orders_branch_absent_def table_eval)
  have 3: "cell_at lines_branch_empty 0 ''Branch'' = NA"
    and 4: "\<not> line_blank plain lines_branch_empty 0"
    and r3: "snd (iterrows lines_branch_empty ! 0) ''Branch'' = Some NA"
    by (simp_all add: lines_branch_empty_def table_eval)
  note a = ordr_constants_and_branch(5) [where row = "snd (iterrows orders_branch_empty ! 0)", OF r1]
  note b = ordr_constants_and_branch(4) [where row = "snd (iterrows orders_branch_absent ! 0)", OF r2]
  note c = ordr_constants_and_branch(8) [where row = "snd (iterrows lines_branch_empty ! 0)", OF r3]
  from 1 2 3 4 ordr_constants_and_branch(1,2) a b c
  show ?thesis by simp
qed

section \<open>The conversion of a cell to text\<close>















section \<open>The generated files\<close>





























end
